theory Spec2Isabelle
  imports Main "HOL-Library.Word"
begin

section \<open>The property wrapper of \<^verbatim>\<open>include/propp/Property.hpp\<close>\<close>

text \<open>
  \<^verbatim>\<open>Property<T, ReadOnly, ThreadSafe, GetterType, SetterType>\<close> wraps one value of
  type \<open>T\<close>. The embedding keeps the class as it is written: the template parameters are
  a record of static configuration that every member function takes as its first
  argument, the data members are a record, and each member function is a function from
  the object before the call to the object after it (and the value returned, if any).
  The wrapped type \<open>T\<close> is the type variable \<open>'v\<close>.
\<close>

subsection \<open>Template parameters\<close>

text \<open>
  The two \<^verbatim>\<open>static_assert\<close>s of the class admit exactly three getter types and three
  setter types.
\<close>

datatype getter_type = NoGetter | GetterTypeValue | GetterTypeRef

datatype setter_type = NoSetter | SetterTypeValue | SetterTypeCRef

record config =
  ReadOnly :: bool
  ThreadSafe :: bool
  GetterType :: getter_type
  SetterType :: setter_type

subsection \<open>Callbacks\<close>

text \<open>
  A getter is a \<^verbatim>\<open>std::function<T()>\<close> (or \<^verbatim>\<open>std::function<T&()>\<close>), a setter a
  \<^verbatim>\<open>std::function<void(T)>\<close> (or \<^verbatim>\<open>std::function<void(const T&)>\<close>): code supplied by
  the owner of the property, which may use the very property it is attached to. What a
  callback does to its own property is a tree of interactions: it returns, or it reads the
  property (\<^verbatim>\<open>Address()\<close>, through \<^verbatim>\<open>Get\<close>) and goes on with the value read, or it reads
  the stored value with \<^verbatim>\<open>GetRaw\<close> and goes on, or it writes the property (\<^verbatim>\<open>Age = x\<close>,
  through \<^verbatim>\<open>Set\<close>) and goes on. A compound assignment inside a callback is a read
  followed by a write; \<^verbatim>\<open>SetGetter\<close> and \<^verbatim>\<open>SetSetter\<close> are left out, since they change
  nothing that a read or a write consults. Everything else a callback computes is ordinary
  HOL inside the continuations. Callbacks return normally: one that throws or loops
  forever is outside the model. A reference returned by a \<^verbatim>\<open>GetterTypeRef\<close> getter is
  modelled by the value it refers to.
\<close>

datatype ('v, 'r) callback =
    Return 'r
  | Read "'v \<Rightarrow> ('v, 'r) callback"
  | ReadRaw "'v \<Rightarrow> ('v, 'r) callback"
  | Write 'v "('v, 'r) callback"

type_synonym 'v Getter = "('v, 'v) callback"

type_synonym 'v Setter = "'v \<Rightarrow> ('v, unit) callback"

subsection \<open>Data members\<close>

text \<open>
  The six data members of the class. A callback slot is \<open>None\<close> when the
  \<^verbatim>\<open>std::function\<close> is empty (and when the slot has the empty type \<^verbatim>\<open>NoGetter\<close> or
  \<^verbatim>\<open>NoSetter\<close>). \<open>m_Mutex\<close> is the number of times the calling thread holds the
  \<^verbatim>\<open>std::recursive_mutex\<close>; the model is of one thread.

  \<open>call_log\<close> is not a member of the class. It is a ghost field that records every
  invocation of a callback together with the hold count of \<open>m_Mutex\<close> at that moment, so
  that theorems can speak about which callbacks ran, and under which lock, during a call.
\<close>

datatype event = GetterCall nat | SetterCall nat

record 'v property =
  m_Value :: 'v
  m_Mutex :: nat
  m_Getter :: "'v Getter option"
  m_Setter :: "'v Setter option"
  m_SetterActive :: bool
  m_GetterActive :: bool
  call_log :: "event list"

subsection \<open>Scoped helpers\<close>

text \<open>
  \<^verbatim>\<open>std::lock_guard<std::recursive_mutex>\<close>: the constructor locks, the destructor
  unlocks.
\<close>

definition lock_guard_ctor :: "'v property \<Rightarrow> 'v property" where
  "lock_guard_ctor p = p\<lparr>m_Mutex := m_Mutex p + 1\<rparr>"

definition lock_guard_dtor :: "'v property \<Rightarrow> 'v property" where
  "lock_guard_dtor p = p\<lparr>m_Mutex := m_Mutex p - 1\<rparr>"

text \<open>
  Every member function that locks does so with the statement
  \<^verbatim>\<open>if constexpr (ThreadSafe) { std::lock_guard<std::recursive_mutex> lock(m_Mutex); }\<close>.
  The guard is declared inside the braces of the \<^verbatim>\<open>if constexpr\<close>, so it is destroyed
  at the closing brace: the statement locks and unlocks, and the rest of the member
  function runs after it.
\<close>

definition lock_block :: "config \<Rightarrow> 'v property \<Rightarrow> 'v property" where
  "lock_block c p = (if ThreadSafe c then lock_guard_dtor (lock_guard_ctor p) else p)"

text \<open>The nested classes \<^verbatim>\<open>GetterGuard\<close> and \<^verbatim>\<open>SetterGuard\<close>.\<close>

definition GetterGuard_ctor :: "'v property \<Rightarrow> 'v property" where
  "GetterGuard_ctor p = p\<lparr>m_GetterActive := True\<rparr>"

definition GetterGuard_dtor :: "'v property \<Rightarrow> 'v property" where
  "GetterGuard_dtor p = p\<lparr>m_GetterActive := False\<rparr>"

definition SetterGuard_ctor :: "'v property \<Rightarrow> 'v property" where
  "SetterGuard_ctor p = p\<lparr>m_SetterActive := True\<rparr>"

definition SetterGuard_dtor :: "'v property \<Rightarrow> 'v property" where
  "SetterGuard_dtor p = p\<lparr>m_SetterActive := False\<rparr>"

text \<open>The ghost step taken when a callback is invoked.\<close>

definition log_call :: "(nat \<Rightarrow> event) \<Rightarrow> 'v property \<Rightarrow> 'v property" where
  "log_call e p = p\<lparr>call_log := call_log p @ [e (m_Mutex p)]\<rparr>"

subsection \<open>The read and write paths\<close>

text \<open>
  \<^verbatim>\<open>GetRaw\<close> returns the stored value, bypassing the getter (its four overloads have one
  body).
\<close>

definition GetRaw :: "config \<Rightarrow> 'v property \<Rightarrow> 'v \<times> 'v property" where
  "GetRaw c p = (let p1 = lock_block c p in (m_Value p1, p1))"

text \<open>
  \<^verbatim>\<open>Get\<close>, \<^verbatim>\<open>Set\<close>, \<^verbatim>\<open>GetST\<close> and \<^verbatim>\<open>SetST\<close>, and the
  invocation of a stored callback (\<^verbatim>\<open>m_Getter()\<close>, \<^verbatim>\<open>m_Setter(newValue)\<close>). They are
  mutually recursive, as in the source: \<^verbatim>\<open>GetST\<close> calls the getter, whose body may read
  and write the property again. The four overloads of \<^verbatim>\<open>Get\<close> and of \<^verbatim>\<open>GetST\<close>
  (by value or by reference, const or not) have the same body and are one function here.
  Termination is proved further down, once everything is defined.
\<close>

function
  call_getter :: "config \<Rightarrow> 'v Getter \<Rightarrow> 'v property \<Rightarrow> 'v \<times> 'v property" and
  call_setter :: "config \<Rightarrow> ('v, unit) callback \<Rightarrow> 'v property \<Rightarrow> 'v property" and
  Get :: "config \<Rightarrow> 'v property \<Rightarrow> 'v \<times> 'v property" and
  Set :: "config \<Rightarrow> 'v \<Rightarrow> 'v property \<Rightarrow> 'v property" and
  GetST :: "config \<Rightarrow> 'v property \<Rightarrow> 'v \<times> 'v property" and
  SetST :: "config \<Rightarrow> 'v \<Rightarrow> 'v property \<Rightarrow> 'v property"
where
  "call_getter c (Return r) p = (r, p)"
| "call_getter c (Read k) p = (case Get c p of (v, p') \<Rightarrow> call_getter c (k v) p')"
| "call_getter c (ReadRaw k) p = (case GetRaw c p of (v, p') \<Rightarrow> call_getter c (k v) p')"
| "call_getter c (Write v b) p = call_getter c b (Set c v p)"
| "call_setter c (Return r) p = p"
| "call_setter c (Read k) p = (case Get c p of (v, p') \<Rightarrow> call_setter c (k v) p')"
| "call_setter c (ReadRaw k) p = (case GetRaw c p of (v, p') \<Rightarrow> call_setter c (k v) p')"
| "call_setter c (Write v b) p = call_setter c b (Set c v p)"
| "Get c p = GetST c (lock_block c p)"
| "Set c newValue p = SetST c newValue (lock_block c p)"
| "GetST c p =
    (if GetterType c \<noteq> NoGetter then
       (case m_Getter p of
          Some getter \<Rightarrow>
            if \<not> m_GetterActive p then
              (case call_getter c getter (log_call GetterCall (GetterGuard_ctor p)) of
                 (r, p') \<Rightarrow> (r, GetterGuard_dtor p'))
            else (m_Value p, p)
        | None \<Rightarrow> (m_Value p, p))
     else (m_Value p, p))"
| "SetST c newValue p =
    (if SetterType c \<noteq> NoSetter then
       (case m_Setter p of
          Some setter \<Rightarrow>
            if \<not> m_SetterActive p then
              SetterGuard_dtor
                (call_setter c (setter newValue) (log_call SetterCall (SetterGuard_ctor p)))
            else p\<lparr>m_Value := newValue\<rparr>
        | None \<Rightarrow> p\<lparr>m_Value := newValue\<rparr>)
     else p\<lparr>m_Value := newValue\<rparr>)"
  by pat_completeness auto

subsection \<open>Constructors\<close>

text \<open>
  The four constructors that take an initial value (the getter-only one needs
  \<^verbatim>\<open>SetterType = NoSetter\<close>, the setter-only one \<^verbatim>\<open>GetterType = NoGetter\<close>, the first
  both). Each clears the two flags; a slot it does not name is default-constructed. The
  mutex starts unlocked and the ghost log empty.
\<close>

definition Property_value :: "'v \<Rightarrow> 'v property" where
  "Property_value val =
     \<lparr>m_Value = val, m_Mutex = 0, m_Getter = None, m_Setter = None,
      m_SetterActive = False, m_GetterActive = False, call_log = []\<rparr>"

definition Property_getter :: "'v \<Rightarrow> 'v Getter option \<Rightarrow> 'v property" where
  "Property_getter val getter =
     \<lparr>m_Value = val, m_Mutex = 0, m_Getter = getter, m_Setter = None,
      m_SetterActive = False, m_GetterActive = False, call_log = []\<rparr>"

definition Property_setter :: "'v \<Rightarrow> 'v Setter option \<Rightarrow> 'v property" where
  "Property_setter val setter =
     \<lparr>m_Value = val, m_Mutex = 0, m_Getter = None, m_Setter = setter,
      m_SetterActive = False, m_GetterActive = False, call_log = []\<rparr>"

definition Property_getter_setter ::
  "'v \<Rightarrow> 'v Getter option \<Rightarrow> 'v Setter option \<Rightarrow> 'v property" where
  "Property_getter_setter val getter setter =
     \<lparr>m_Value = val, m_Mutex = 0, m_Getter = getter, m_Setter = setter,
      m_SetterActive = False, m_GetterActive = False, call_log = []\<rparr>"

subsection \<open>Public member functions\<close>

text \<open>
  The conversion operator, \<^verbatim>\<open>operator*\<close> and \<^verbatim>\<open>operator()\<close> all return \<^verbatim>\<open>Get()\<close>;
  \<open>Get\<close> stands for them.

  \<^verbatim>\<open>operator=\<close> and \<^verbatim>\<open>SetSetter\<close> are declared with
  \<^verbatim>\<open>std::enable_if<!RO, int>\<close>: on a read-only property they do not exist and a call
  does not compile. That outcome is \<open>None\<close>. The operand is taken at type \<open>T\<close>, after
  the \<^verbatim>\<open>static_cast<T>\<close>.
\<close>

definition operator_assign :: "config \<Rightarrow> 'v \<Rightarrow> 'v property \<Rightarrow> 'v property option" where
  "operator_assign c val p = (if ReadOnly c then None else Some (Set c val p))"

text \<open>
  \<^verbatim>\<open>SetGetter(const Getter&)\<close> and \<^verbatim>\<open>SetSetter(const Setter&)\<close>. The parameter has the
  type of the slot. Where the slot is a \<^verbatim>\<open>std::function\<close> the argument is a callback or
  an empty function (\<open>Some\<close> or \<open>None\<close>). Where the slot has the empty type
  \<^verbatim>\<open>NoGetter\<close> or \<^verbatim>\<open>NoSetter\<close> the only argument is the empty object (\<open>None\<close>): a
  callback does not convert to it, and the call does not compile (\<open>None\<close> as the
  outcome). \<^verbatim>\<open>SetSetter\<close> moreover exists on writable properties only. The body assigns
  the argument to the slot in the branch
  \<^verbatim>\<open>if constexpr (std::is_same_v<GetterType, NoGetter>)\<close>, that is, when the slot has the
  empty type.
\<close>

definition SetGetter ::
  "config \<Rightarrow> 'v Getter option \<Rightarrow> 'v property \<Rightarrow> 'v property option" where
  "SetGetter c customGetter p =
     (if GetterType c = NoGetter \<and> customGetter \<noteq> None then None
      else Some (let p1 = lock_block c p
                 in if GetterType c = NoGetter then p1\<lparr>m_Getter := customGetter\<rparr> else p1))"

definition SetSetter ::
  "config \<Rightarrow> 'v Setter option \<Rightarrow> 'v property \<Rightarrow> 'v property option" where
  "SetSetter c customSetter p =
     (if ReadOnly c then None
      else if SetterType c = NoSetter \<and> customSetter \<noteq> None then None
      else Some (let p1 = lock_block c p
                 in if SetterType c = NoSetter then p1\<lparr>m_Setter := customSetter\<rparr> else p1))"

text \<open>
  \<^verbatim>\<open>ApplyOperation\<close>: \<^verbatim>\<open>auto value = GetST(); operation(value); SetST(value);\<close>. The
  \<^verbatim>\<open>std::function<void(T&)>\<close> is the function it computes on the local copy. The member
  returns \<^verbatim>\<open>*this\<close>, the property itself.
\<close>

definition ApplyOperation :: "config \<Rightarrow> ('v \<Rightarrow> 'v) \<Rightarrow> 'v property \<Rightarrow> 'v property" where
  "ApplyOperation c operation p =
     (case GetST c (lock_block c p) of (val, p1) \<Rightarrow> SetST c (operation val) p1)"

text \<open>
  The ten compound assignments have one body, \<^verbatim>\<open>ApplyOperation([&](T& v) { v op=
  static_cast<T>(value); })\<close>, and differ in the operator of \<open>T\<close> they apply. What
  \<open>T\<close>'s operators compute is a parameter, \<open>T_op\<close>. None of them is restricted by
  \<^verbatim>\<open>ReadOnly\<close>.
\<close>

datatype compound_op =
    AddAssign | SubAssign | MulAssign | DivAssign | ModAssign
  | AndAssign | OrAssign | XorAssign | ShlAssign | ShrAssign

definition operator_compound ::
  "(compound_op \<Rightarrow> 'v \<Rightarrow> 'v \<Rightarrow> 'v) \<Rightarrow> compound_op \<Rightarrow> 'v \<Rightarrow> config \<Rightarrow> 'v property
     \<Rightarrow> 'v property" where
  "operator_compound T_op opr val c p = ApplyOperation c (\<lambda>v. T_op opr v val) p"

text \<open>
  Increment and decrement. \<open>T_inc\<close> is what \<^verbatim>\<open>++v\<close> and \<^verbatim>\<open>v++\<close> do to a variable of
  type \<open>T\<close>, \<open>T_dec\<close> what \<^verbatim>\<open>--v\<close> and \<^verbatim>\<open>v--\<close> do. The postfix lambdas
  \<^verbatim>\<open>[&](T& v) { T old = v; v++; return old; }\<close> return the old value; the
  \<^verbatim>\<open>std::function<void(T&)>\<close> they are converted to drops it.
\<close>

definition operator_pre_inc :: "('v \<Rightarrow> 'v) \<Rightarrow> config \<Rightarrow> 'v property \<Rightarrow> 'v property" where
  "operator_pre_inc T_inc c p = ApplyOperation c (\<lambda>v. T_inc v) p"

definition operator_pre_dec :: "('v \<Rightarrow> 'v) \<Rightarrow> config \<Rightarrow> 'v property \<Rightarrow> 'v property" where
  "operator_pre_dec T_dec c p = ApplyOperation c (\<lambda>v. T_dec v) p"

definition postfix_lambda :: "('v \<Rightarrow> 'v) \<Rightarrow> 'v \<Rightarrow> 'v \<times> 'v" where
  "postfix_lambda T_step v = (let old = v; v' = T_step v in (old, v'))"

definition operator_post_inc :: "('v \<Rightarrow> 'v) \<Rightarrow> config \<Rightarrow> 'v property \<Rightarrow> 'v property" where
  "operator_post_inc T_inc c p = ApplyOperation c (\<lambda>v. snd (postfix_lambda T_inc v)) p"

definition operator_post_dec :: "('v \<Rightarrow> 'v) \<Rightarrow> config \<Rightarrow> 'v property \<Rightarrow> 'v property" where
  "operator_post_dec T_dec c p = ApplyOperation c (\<lambda>v. snd (postfix_lambda T_dec v)) p"

subsection \<open>Type aliases\<close>

text \<open>The aliases of the header used below (the getter and setter types are arguments).\<close>

definition PropertyRW :: config where
  "PropertyRW = \<lparr>ReadOnly = False, ThreadSafe = False, GetterType = NoGetter,
                 SetterType = NoSetter\<rparr>"

definition PropertyRWG :: "getter_type \<Rightarrow> config" where
  "PropertyRWG g = \<lparr>ReadOnly = False, ThreadSafe = False, GetterType = g,
                    SetterType = NoSetter\<rparr>"

definition PropertyRWS :: "setter_type \<Rightarrow> config" where
  "PropertyRWS s = \<lparr>ReadOnly = False, ThreadSafe = False, GetterType = NoGetter,
                    SetterType = s\<rparr>"

definition PropertyRWGS :: "getter_type \<Rightarrow> setter_type \<Rightarrow> config" where
  "PropertyRWGS g s = \<lparr>ReadOnly = False, ThreadSafe = False, GetterType = g,
                       SetterType = s\<rparr>"

definition PropertyRWMT :: config where
  "PropertyRWMT = \<lparr>ReadOnly = False, ThreadSafe = True, GetterType = NoGetter,
                   SetterType = NoSetter\<rparr>"

definition PropertyRWSMT :: "setter_type \<Rightarrow> config" where
  "PropertyRWSMT s = \<lparr>ReadOnly = False, ThreadSafe = True, GetterType = NoGetter,
                      SetterType = s\<rparr>"

definition PropertyRO :: config where
  "PropertyRO = \<lparr>ReadOnly = True, ThreadSafe = False, GetterType = NoGetter,
                 SetterType = NoSetter\<rparr>"

definition PropertyROG :: "getter_type \<Rightarrow> config" where
  "PropertyROG g = \<lparr>ReadOnly = True, ThreadSafe = False, GetterType = g,
                    SetterType = NoSetter\<rparr>"

section \<open>The example program, \<^verbatim>\<open>examples/example.cpp\<close>\<close>

text \<open>
  \<^verbatim>\<open>int\<close> is a 32-bit two's complement word; \<^verbatim>\<open>std::clamp(v, lo, hi)\<close> is
  \<^verbatim>\<open>(v < lo) ? lo : (hi < v) ? hi : v\<close> with the signed comparison of \<^verbatim>\<open>int\<close>.
\<close>

type_synonym cpp_int = "32 word"

definition std_clamp :: "cpp_int \<Rightarrow> cpp_int \<Rightarrow> cpp_int \<Rightarrow> cpp_int" where
  "std_clamp v lo hi = (if v <s lo then lo else if hi <s v then hi else v)"

text \<open>\<^verbatim>\<open>Person::SetAge\<close>: \<^verbatim>\<open>Age = std::clamp(value, 0, 150);\<close>.\<close>

definition SetAge :: "cpp_int Setter" where
  "SetAge val = Write (std_clamp val 0 150) (Return ())"

text \<open>
  \<^verbatim>\<open>Person::GetAddress\<close>: \<^verbatim>\<open>return Address() + predefinedCountry;\<close>. The function-local
  static is an argument, \<^verbatim>\<open>" USA"\<close> in the program.
\<close>

definition GetAddress :: "string \<Rightarrow> string Getter" where
  "GetAddress predefinedCountry = Read (\<lambda>address. Return (address @ predefinedCountry))"

definition predefinedCountry :: string where
  "predefinedCountry = '' USA''"

text \<open>
  The three members of \<^verbatim>\<open>Person\<close> as its constructor builds them:
  \<^verbatim>\<open>PropertyRO<std::string> Name\<close>, \<^verbatim>\<open>PropertyRWSMT<int> Age\<close> and
  \<^verbatim>\<open>PropertyROG<std::string, GetterTypeValue<std::string>> Address\<close>.
\<close>

definition Person_Name :: "string \<Rightarrow> string property" where
  "Person_Name name = Property_value name"

definition Person_Age :: "cpp_int property" where
  "Person_Age = Property_setter 0 (Some SetAge)"

definition Person_Address :: "string property" where
  "Person_Address =
     Property_getter ''123 Main St Mega City MS 12345'' (Some (GetAddress predefinedCountry))"

text \<open>
  \<open>T\<close>'s operators at \<^verbatim>\<open>std::string\<close>, the type of \<^verbatim>\<open>Name\<close> and \<^verbatim>\<open>Address\<close>:
  \<^verbatim>\<open>+=\<close> appends. \<^verbatim>\<open>std::string\<close> has none of the other nine, so a program cannot
  instantiate them; the model leaves the value as it is there.
\<close>

definition std_string_op :: "compound_op \<Rightarrow> string \<Rightarrow> string \<Rightarrow> string" where
  "std_string_op opr v x = (case opr of AddAssign \<Rightarrow> v @ x | _ \<Rightarrow> v)"

section \<open>Notions the properties are stated with\<close>

text \<open>The pair of re-entrancy flags.\<close>

definition flags :: "'v property \<Rightarrow> bool \<times> bool" where
  "flags p = (m_GetterActive p, m_SetterActive p)"

text \<open>
  The number of flags that are clear. A callback is entered only when its flag is clear,
  and entering sets it.
\<close>

definition clear_flags :: "'v property \<Rightarrow> nat" where
  "clear_flags p =
     (if m_GetterActive p then 0 else 1) + (if m_SetterActive p then 0 else 1)"

text \<open>
  A property has a custom getter when its type has a getter slot and the slot holds a
  function: the condition under which \<^verbatim>\<open>GetST\<close> considers calling it. Likewise for the
  setter.
\<close>

definition has_custom_getter :: "config \<Rightarrow> 'v property \<Rightarrow> bool" where
  "has_custom_getter c p = (GetterType c \<noteq> NoGetter \<and> m_Getter p \<noteq> None)"

definition has_custom_setter :: "config \<Rightarrow> 'v property \<Rightarrow> bool" where
  "has_custom_setter c p = (SetterType c \<noteq> NoSetter \<and> m_Setter p \<noteq> None)"

text \<open>How often each callback has been invoked so far, read off the ghost log.\<close>

fun is_GetterCall :: "event \<Rightarrow> bool" where
  "is_GetterCall (GetterCall n) = True"
| "is_GetterCall (SetterCall n) = False"

definition getter_calls :: "'v property \<Rightarrow> nat" where
  "getter_calls p = length (filter is_GetterCall (call_log p))"

definition setter_calls :: "'v property \<Rightarrow> nat" where
  "setter_calls p = length (filter (\<lambda>e. \<not> is_GetterCall e) (call_log p))"


text \<open>
  The order in which the calls of the read and write paths decrease: first the number of
  clear flags; then the kind of call (a callback body above \<^verbatim>\<open>Get\<close> and \<^verbatim>\<open>Set\<close>, these
  above \<^verbatim>\<open>GetST\<close> and \<^verbatim>\<open>SetST\<close>); then the callback body, which is consumed from the
  root towards its leaves.
\<close>

definition sub_callback :: "(('v, unit) callback \<times> ('v, unit) callback) set" where
  "sub_callback =
     {(b', b). (\<exists>k v. (b = Read k \<or> b = ReadRaw k) \<and> b' = k v) \<or> (\<exists>v. b = Write v b')}"

fun call_rank ::
  "(config \<times> 'v Getter \<times> 'v property + config \<times> ('v, unit) callback \<times> 'v property
      + config \<times> 'v property)
   + (config \<times> 'v \<times> 'v property + config \<times> 'v property + config \<times> 'v \<times> 'v property)
   \<Rightarrow> nat \<times> nat \<times> ('v, unit) callback"
where
  "call_rank (Inl (Inl (c, b, p))) = (clear_flags p, 2, map_callback (\<lambda>_. ()) b)"
| "call_rank (Inl (Inr (Inl (c, b, p)))) = (clear_flags p, 2, b)"
| "call_rank (Inl (Inr (Inr (c, p)))) = (clear_flags p, 1, Return ())"
| "call_rank (Inr (Inl (c, v, p))) = (clear_flags p, 1, Return ())"
| "call_rank (Inr (Inr (Inl (c, p)))) = (clear_flags p, 0, Return ())"
| "call_rank (Inr (Inr (Inr (c, v, p)))) = (clear_flags p, 0, Return ())"

section \<open>Termination\<close>

text \<open>
  The locking statement leaves the object as it was: the guard it creates is gone when the
  statement ends. So \<^verbatim>\<open>Get\<close> is \<^verbatim>\<open>GetST\<close> and \<^verbatim>\<open>Set\<close> is \<^verbatim>\<open>SetST\<close>, whatever
  \<^verbatim>\<open>ThreadSafe\<close> is, and \<^verbatim>\<open>GetRaw\<close> returns the stored value and the object unchanged.
\<close>

lemma lock_block_id [simp]: "lock_block c p = p"
  by (simp add: lock_block_def lock_guard_ctor_def lock_guard_dtor_def)

lemma GetRaw_raw [simp]: "GetRaw c p = (m_Value p, p)"
  by (simp add: GetRaw_def)

lemmas scoped_defs =
  lock_guard_ctor_def lock_guard_dtor_def lock_block_def GetterGuard_ctor_def
  GetterGuard_dtor_def SetterGuard_ctor_def SetterGuard_dtor_def log_call_def

lemma wf_sub_callback: "wf sub_callback"
  unfolding wf_def
proof (intro allI impI)
  fix P :: "('v, unit) callback \<Rightarrow> bool" and b
  assume step: "\<forall>x. (\<forall>y. (y, x) \<in> sub_callback \<longrightarrow> P y) \<longrightarrow> P x"
  show "P b"
  proof (induction b)
    case (Return r)
    show ?case by (rule step [rule_format]) (simp add: sub_callback_def)
  next
    case (Read k)
    show ?case by (rule step [rule_format]) (use Read in \<open>auto simp: sub_callback_def\<close>)
  next
    case (ReadRaw k)
    show ?case by (rule step [rule_format]) (use ReadRaw in \<open>auto simp: sub_callback_def\<close>)
  next
    case (Write v b)
    show ?case by (rule step [rule_format]) (use Write in \<open>auto simp: sub_callback_def\<close>)
  qed
qed

text \<open>
  Wherever the functions are defined, a call leaves both re-entrancy flags as it found
  them. The termination proof needs this for the state in which a callback goes on after
  a nested read or write.
\<close>

lemma flags_partial:
  "call_getter_call_setter_Get_Set_GetST_SetST_dom (Inl (Inl (c0, gb, p0))) \<Longrightarrow>
     flags (snd (call_getter c0 gb p0)) = flags (p0 :: 'v property)"
  "call_getter_call_setter_Get_Set_GetST_SetST_dom (Inl (Inr (Inl (c1, sb, p1)))) \<Longrightarrow>
     flags (call_setter c1 sb p1) = flags (p1 :: 'v property)"
  "call_getter_call_setter_Get_Set_GetST_SetST_dom (Inl (Inr (Inr (c2, p2)))) \<Longrightarrow>
     flags (snd (Get c2 p2)) = flags (p2 :: 'v property)"
  "call_getter_call_setter_Get_Set_GetST_SetST_dom (Inr (Inl (c3, v3, p3))) \<Longrightarrow>
     flags (Set c3 v3 p3) = flags (p3 :: 'v property)"
  "call_getter_call_setter_Get_Set_GetST_SetST_dom (Inr (Inr (Inl (c4, p4)))) \<Longrightarrow>
     flags (snd (GetST c4 p4)) = flags (p4 :: 'v property)"
  "call_getter_call_setter_Get_Set_GetST_SetST_dom (Inr (Inr (Inr (c5, v5, p5)))) \<Longrightarrow>
     flags (SetST c5 v5 p5) = flags (p5 :: 'v property)"
proof (induct c0 gb p0 and c1 sb p1 and c2 p2 and c3 v3 p3 and c4 p4 and c5 v5 p5
    rule: call_getter_call_setter_Get_Set_GetST_SetST.pinduct)
  case (1 c r p)
  then show ?case by (simp add: call_getter.psimps)
next
  case (2 c k p)
  then show ?case by (simp add: call_getter.psimps split: prod.splits) (metis snd_conv)
next
  case (3 c k p)
  then show ?case by (simp add: call_getter.psimps)
next
  case (4 c v b p)
  then show ?case by (simp add: call_getter.psimps)
next
  case (5 c r p)
  then show ?case by (simp add: call_setter.psimps)
next
  case (6 c k p)
  then show ?case by (simp add: call_setter.psimps split: prod.splits) (metis snd_conv)
next
  case (7 c k p)
  then show ?case by (simp add: call_setter.psimps)
next
  case (8 c v b p)
  then show ?case by (simp add: call_setter.psimps)
next
  case (9 c p)
  then show ?case by (simp add: Get.psimps)
next
  case (10 c newValue p)
  then show ?case by (simp add: Set.psimps)
next
  case (11 c p)
  then show ?case
    by (auto simp add: GetST.psimps scoped_defs flags_def split: option.splits prod.splits)
next
  case (12 c newValue p)
  then show ?case
    by (auto simp add: SetST.psimps scoped_defs flags_def split: option.splits prod.splits)
qed

lemma clear_flags_cong: "flags p = flags q \<Longrightarrow> clear_flags p = clear_flags q"
  by (simp add: flags_def clear_flags_def)

lemma clear_flags_Get_partial:
  "call_getter_call_setter_Get_Set_GetST_SetST_dom (Inl (Inr (Inr (c, p)))) \<Longrightarrow>
     (x, y) = Get c p \<Longrightarrow> clear_flags y = clear_flags p"
  using flags_partial(3) [of c p] by (metis clear_flags_cong snd_conv)

lemma clear_flags_Set_partial:
  "call_getter_call_setter_Get_Set_GetST_SetST_dom (Inr (Inl (c, v, p))) \<Longrightarrow>
     clear_flags (Set c v p) = clear_flags p"
  using flags_partial(4) [of c v p] by (rule clear_flags_cong)

lemma clear_flags_enter:
  "\<not> m_GetterActive p \<Longrightarrow> clear_flags (log_call e (GetterGuard_ctor p)) < clear_flags p"
  "\<not> m_SetterActive p \<Longrightarrow> clear_flags (log_call e (SetterGuard_ctor p)) < clear_flags p"
  "clear_flags (lock_block c p) = clear_flags p"
  by (simp_all add: scoped_defs clear_flags_def)

termination call_getter
proof (relation "inv_image (less_than <*lex*> less_than <*lex*> sub_callback) call_rank")
  show "wf (inv_image (less_than <*lex*> less_than <*lex*>
              (sub_callback :: (('a, unit) callback \<times> ('a, unit) callback) set)) call_rank)"
    by (intro wf_inv_image wf_lex_prod wf_less_than wf_sub_callback)
qed (auto simp: sub_callback_def clear_flags_enter clear_flags_Get_partial clear_flags_Set_partial)

section \<open>Basic facts\<close>

declare GetST.simps [simp del] SetST.simps [simp del]

lemma GetST_raw:
  "GetterType c = NoGetter \<or> m_Getter p = None \<or> m_GetterActive p \<Longrightarrow>
     GetST c p = (m_Value p, p)"
  by (auto simp: GetST.simps split: option.splits)

lemma GetST_dispatch:
  "GetterType c \<noteq> NoGetter \<Longrightarrow> m_Getter p = Some g \<Longrightarrow> \<not> m_GetterActive p \<Longrightarrow>
     GetST c p =
       (case call_getter c g (log_call GetterCall (GetterGuard_ctor p)) of
          (r, p') \<Rightarrow> (r, GetterGuard_dtor p'))"
  by (simp add: GetST.simps)

lemma SetST_raw:
  "SetterType c = NoSetter \<or> m_Setter p = None \<or> m_SetterActive p \<Longrightarrow>
     SetST c v p = p\<lparr>m_Value := v\<rparr>"
  by (auto simp: SetST.simps split: option.splits)

lemma SetST_dispatch:
  "SetterType c \<noteq> NoSetter \<Longrightarrow> m_Setter p = Some s \<Longrightarrow> \<not> m_SetterActive p \<Longrightarrow>
     SetST c v p =
       SetterGuard_dtor (call_setter c (s v) (log_call SetterCall (SetterGuard_ctor p)))"
  by (simp add: SetST.simps)

text \<open>Every call leaves the two flags as it found them.\<close>

lemma flags_kept:
  "flags (snd (call_getter c0 gb p0)) = flags (p0 :: 'v property)"
  "flags (call_setter c1 sb p1) = flags (p1 :: 'v property)"
  "flags (snd (Get c2 p2)) = flags (p2 :: 'v property)"
  "flags (Set c3 v3 p3) = flags (p3 :: 'v property)"
  "flags (snd (GetST c4 p4)) = flags (p4 :: 'v property)"
  "flags (SetST c5 v5 p5) = flags (p5 :: 'v property)"
proof (induct c0 gb p0 and c1 sb p1 and c2 p2 and c3 v3 p3 and c4 p4 and c5 v5 p5
    rule: call_getter_call_setter_Get_Set_GetST_SetST.induct)
  case (2 c k p)
  then show ?case by (simp split: prod.splits) (metis snd_conv)
next
  case (6 c k p)
  then show ?case by (simp split: prod.splits) (metis snd_conv)
next
  case (11 c p)
  then show ?case
    by (auto simp add: GetST.simps scoped_defs flags_def split: option.splits prod.splits)
next
  case (12 c newValue p)
  then show ?case
    by (auto simp add: SetST.simps scoped_defs flags_def split: option.splits prod.splits)
qed simp_all

text \<open>No call changes a callback slot or the hold count of the mutex.\<close>

lemma slots_kept:
  "m_Getter (snd (call_getter c0 gb p0)) = m_Getter (p0 :: 'v property) \<and>
   m_Setter (snd (call_getter c0 gb p0)) = m_Setter p0 \<and>
   m_Mutex (snd (call_getter c0 gb p0)) = m_Mutex p0"
  "m_Getter (call_setter c1 sb p1) = m_Getter (p1 :: 'v property) \<and>
   m_Setter (call_setter c1 sb p1) = m_Setter p1 \<and>
   m_Mutex (call_setter c1 sb p1) = m_Mutex p1"
  "m_Getter (snd (Get c2 p2)) = m_Getter (p2 :: 'v property) \<and>
   m_Setter (snd (Get c2 p2)) = m_Setter p2 \<and>
   m_Mutex (snd (Get c2 p2)) = m_Mutex p2"
  "m_Getter (Set c3 v3 p3) = m_Getter (p3 :: 'v property) \<and>
   m_Setter (Set c3 v3 p3) = m_Setter p3 \<and>
   m_Mutex (Set c3 v3 p3) = m_Mutex p3"
  "m_Getter (snd (GetST c4 p4)) = m_Getter (p4 :: 'v property) \<and>
   m_Setter (snd (GetST c4 p4)) = m_Setter p4 \<and>
   m_Mutex (snd (GetST c4 p4)) = m_Mutex p4"
  "m_Getter (SetST c5 v5 p5) = m_Getter (p5 :: 'v property) \<and>
   m_Setter (SetST c5 v5 p5) = m_Setter p5 \<and>
   m_Mutex (SetST c5 v5 p5) = m_Mutex p5"
proof (induct c0 gb p0 and c1 sb p1 and c2 p2 and c3 v3 p3 and c4 p4 and c5 v5 p5
    rule: call_getter_call_setter_Get_Set_GetST_SetST.induct)
  case (2 c k p)
  then show ?case by (simp split: prod.splits) (metis snd_conv)
next
  case (6 c k p)
  then show ?case by (simp split: prod.splits) (metis snd_conv)
next
  case (11 c p)
  then show ?case
    by (auto simp add: GetST.simps scoped_defs split: option.splits prod.splits)
next
  case (12 c newValue p)
  then show ?case
    by (auto simp add: SetST.simps scoped_defs split: option.splits prod.splits)
qed simp_all

text \<open>
  While the in-getter flag is set, nothing invokes the getter; while the in-setter flag is
  set, nothing invokes the setter.
\<close>

lemma getter_quiet:
  "m_GetterActive p0 \<Longrightarrow>
     getter_calls (snd (call_getter c0 gb p0)) = getter_calls (p0 :: 'v property)"
  "m_GetterActive p1 \<Longrightarrow>
     getter_calls (call_setter c1 sb p1) = getter_calls (p1 :: 'v property)"
  "m_GetterActive p2 \<Longrightarrow> getter_calls (snd (Get c2 p2)) = getter_calls (p2 :: 'v property)"
  "m_GetterActive p3 \<Longrightarrow> getter_calls (Set c3 v3 p3) = getter_calls (p3 :: 'v property)"
  "m_GetterActive p4 \<Longrightarrow>
     getter_calls (snd (GetST c4 p4)) = getter_calls (p4 :: 'v property)"
  "m_GetterActive p5 \<Longrightarrow> getter_calls (SetST c5 v5 p5) = getter_calls (p5 :: 'v property)"
proof (induct c0 gb p0 and c1 sb p1 and c2 p2 and c3 v3 p3 and c4 p4 and c5 v5 p5
    rule: call_getter_call_setter_Get_Set_GetST_SetST.induct)
  case (2 c k p)
  then show ?case using flags_kept(3) [of c p]
    by (simp add: flags_def split: prod.splits) (metis snd_conv)
next
  case (4 c v b p)
  then show ?case using flags_kept(4) [of c v p] by (simp add: flags_def)
next
  case (6 c k p)
  then show ?case using flags_kept(3) [of c p]
    by (simp add: flags_def split: prod.splits) (metis snd_conv)
next
  case (8 c v b p)
  then show ?case using flags_kept(4) [of c v p] by (simp add: flags_def)
next
  case (11 c p)
  then show ?case by (simp add: GetST_raw)
next
  case (12 c newValue p)
  then show ?case
    by (auto simp add: SetST.simps scoped_defs getter_calls_def split: option.splits)
qed simp_all

lemma setter_quiet:
  "m_SetterActive p0 \<Longrightarrow>
     setter_calls (snd (call_getter c0 gb p0)) = setter_calls (p0 :: 'v property)"
  "m_SetterActive p1 \<Longrightarrow>
     setter_calls (call_setter c1 sb p1) = setter_calls (p1 :: 'v property)"
  "m_SetterActive p2 \<Longrightarrow> setter_calls (snd (Get c2 p2)) = setter_calls (p2 :: 'v property)"
  "m_SetterActive p3 \<Longrightarrow> setter_calls (Set c3 v3 p3) = setter_calls (p3 :: 'v property)"
  "m_SetterActive p4 \<Longrightarrow>
     setter_calls (snd (GetST c4 p4)) = setter_calls (p4 :: 'v property)"
  "m_SetterActive p5 \<Longrightarrow> setter_calls (SetST c5 v5 p5) = setter_calls (p5 :: 'v property)"
proof (induct c0 gb p0 and c1 sb p1 and c2 p2 and c3 v3 p3 and c4 p4 and c5 v5 p5
    rule: call_getter_call_setter_Get_Set_GetST_SetST.induct)
  case (2 c k p)
  then show ?case using flags_kept(3) [of c p]
    by (simp add: flags_def split: prod.splits) (metis snd_conv)
next
  case (4 c v b p)
  then show ?case using flags_kept(4) [of c v p] by (simp add: flags_def)
next
  case (6 c k p)
  then show ?case using flags_kept(3) [of c p]
    by (simp add: flags_def split: prod.splits) (metis snd_conv)
next
  case (8 c v b p)
  then show ?case using flags_kept(4) [of c v p] by (simp add: flags_def)
next
  case (11 c p)
  then show ?case
    by (auto simp add: GetST.simps scoped_defs setter_calls_def
        split: option.splits prod.splits)
next
  case (12 c newValue p)
  then show ?case by (simp add: SetST_raw setter_calls_def)
qed simp_all

text \<open>
  A property whose type has no getter slot never looks at \<open>m_Getter\<close>: every call
  commutes with an update of that member. Likewise for \<open>m_Setter\<close>.
\<close>

lemma slot_update_commute:
  "log_call e (SetterGuard_ctor (p\<lparr>m_Getter := g\<rparr>)) =
     (log_call e (SetterGuard_ctor p))\<lparr>m_Getter := g\<rparr>"
  "SetterGuard_dtor (p\<lparr>m_Getter := g\<rparr>) = (SetterGuard_dtor p)\<lparr>m_Getter := g\<rparr>"
  "log_call e (GetterGuard_ctor (p\<lparr>m_Setter := s\<rparr>)) =
     (log_call e (GetterGuard_ctor p))\<lparr>m_Setter := s\<rparr>"
  "GetterGuard_dtor (p\<lparr>m_Setter := s\<rparr>) = (GetterGuard_dtor p)\<lparr>m_Setter := s\<rparr>"
  by (simp_all add: scoped_defs)

lemma m_Getter_unused:
  "GetterType c0 = NoGetter \<Longrightarrow>
     call_getter c0 gb ((p0 :: 'v property)\<lparr>m_Getter := g\<rparr>) =
       (fst (call_getter c0 gb p0), (snd (call_getter c0 gb p0))\<lparr>m_Getter := g\<rparr>)"
  "GetterType c1 = NoGetter \<Longrightarrow>
     call_setter c1 sb ((p1 :: 'v property)\<lparr>m_Getter := g\<rparr>) =
       (call_setter c1 sb p1)\<lparr>m_Getter := g\<rparr>"
  "GetterType c2 = NoGetter \<Longrightarrow>
     Get c2 ((p2 :: 'v property)\<lparr>m_Getter := g\<rparr>) =
       (fst (Get c2 p2), (snd (Get c2 p2))\<lparr>m_Getter := g\<rparr>)"
  "GetterType c3 = NoGetter \<Longrightarrow>
     Set c3 v3 ((p3 :: 'v property)\<lparr>m_Getter := g\<rparr>) = (Set c3 v3 p3)\<lparr>m_Getter := g\<rparr>"
  "GetterType c4 = NoGetter \<Longrightarrow>
     GetST c4 ((p4 :: 'v property)\<lparr>m_Getter := g\<rparr>) =
       (fst (GetST c4 p4), (snd (GetST c4 p4))\<lparr>m_Getter := g\<rparr>)"
  "GetterType c5 = NoGetter \<Longrightarrow>
     SetST c5 v5 ((p5 :: 'v property)\<lparr>m_Getter := g\<rparr>) = (SetST c5 v5 p5)\<lparr>m_Getter := g\<rparr>"
proof (induct c0 gb p0 and c1 sb p1 and c2 p2 and c3 v3 p3 and c4 p4 and c5 v5 p5
    rule: call_getter_call_setter_Get_Set_GetST_SetST.induct)
  case (2 c k p)
  then show ?case by (simp split: prod.splits)
next
  case (6 c k p)
  then show ?case by (simp split: prod.splits)
next
  case (11 c p)
  then show ?case by (simp add: GetST_raw)
next
  case (12 c newValue p)
  then show ?case
    by (auto simp add: SetST.simps slot_update_commute split: option.splits)
qed simp_all

lemma m_Setter_unused:
  "SetterType c0 = NoSetter \<Longrightarrow>
     call_getter c0 gb ((p0 :: 'v property)\<lparr>m_Setter := s\<rparr>) =
       (fst (call_getter c0 gb p0), (snd (call_getter c0 gb p0))\<lparr>m_Setter := s\<rparr>)"
  "SetterType c1 = NoSetter \<Longrightarrow>
     call_setter c1 sb ((p1 :: 'v property)\<lparr>m_Setter := s\<rparr>) =
       (call_setter c1 sb p1)\<lparr>m_Setter := s\<rparr>"
  "SetterType c2 = NoSetter \<Longrightarrow>
     Get c2 ((p2 :: 'v property)\<lparr>m_Setter := s\<rparr>) =
       (fst (Get c2 p2), (snd (Get c2 p2))\<lparr>m_Setter := s\<rparr>)"
  "SetterType c3 = NoSetter \<Longrightarrow>
     Set c3 v3 ((p3 :: 'v property)\<lparr>m_Setter := s\<rparr>) = (Set c3 v3 p3)\<lparr>m_Setter := s\<rparr>"
  "SetterType c4 = NoSetter \<Longrightarrow>
     GetST c4 ((p4 :: 'v property)\<lparr>m_Setter := s\<rparr>) =
       (fst (GetST c4 p4), (snd (GetST c4 p4))\<lparr>m_Setter := s\<rparr>)"
  "SetterType c5 = NoSetter \<Longrightarrow>
     SetST c5 v5 ((p5 :: 'v property)\<lparr>m_Setter := s\<rparr>) = (SetST c5 v5 p5)\<lparr>m_Setter := s\<rparr>"
proof (induct c0 gb p0 and c1 sb p1 and c2 p2 and c3 v3 p3 and c4 p4 and c5 v5 p5
    rule: call_getter_call_setter_Get_Set_GetST_SetST.induct)
  case (2 c k p)
  then show ?case by (simp split: prod.splits)
next
  case (6 c k p)
  then show ?case by (simp split: prod.splits)
next
  case (11 c p)
  then show ?case
    by (auto simp add: GetST.simps slot_update_commute split: option.splits prod.splits)
next
  case (12 c newValue p)
  then show ?case by (simp add: SetST_raw)
qed simp_all


text \<open>
  A top-level read of a property with a custom getter, and a top-level write of one with
  a custom setter: the callback runs once, with its flag set, and the flag is clear again
  afterwards.
\<close>

lemma getter_calls_enter:
  "getter_calls (GetterGuard_dtor p) = getter_calls p"
  "getter_calls (log_call GetterCall (GetterGuard_ctor p)) = getter_calls p + 1"
  "setter_calls (SetterGuard_dtor p) = setter_calls p"
  "setter_calls (log_call SetterCall (SetterGuard_ctor p)) = setter_calls p + 1"
  by (simp_all add: getter_calls_def setter_calls_def scoped_defs)

lemma top_level_read:
  assumes "GetterType c \<noteq> NoGetter" and "m_Getter p = Some getter" and "\<not> m_GetterActive p"
  shows "Get c p =
           (case call_getter c getter (log_call GetterCall (GetterGuard_ctor p)) of
              (r, p') \<Rightarrow> (r, GetterGuard_dtor p')) \<and>
         m_GetterActive (log_call GetterCall (GetterGuard_ctor p)) \<and>
         \<not> m_GetterActive (snd (Get c p)) \<and>
         getter_calls (snd (Get c p)) = getter_calls p + 1"
proof -
  let ?entry = "log_call GetterCall (GetterGuard_ctor p)"
  have eq: "Get c p = (case call_getter c getter ?entry of (r, p') \<Rightarrow> (r, GetterGuard_dtor p'))"
    using GetST_dispatch [OF assms] by simp
  have active: "m_GetterActive ?entry"
    by (simp add: scoped_defs)
  have cleared: "\<not> m_GetterActive (snd (Get c p))"
    using flags_kept(3) [of c p] assms(3) by (simp add: flags_def)
  have "getter_calls (snd (Get c p)) = getter_calls (snd (call_getter c getter ?entry))"
    unfolding eq by (simp add: getter_calls_enter split: prod.splits)
  also have "\<dots> = getter_calls ?entry"
    by (rule getter_quiet(1) [OF active])
  finally have "getter_calls (snd (Get c p)) = getter_calls p + 1"
    by (simp add: getter_calls_enter)
  with eq active cleared show ?thesis
    by blast
qed

lemma top_level_write:
  assumes "SetterType c \<noteq> NoSetter" and "m_Setter p = Some setter" and "\<not> m_SetterActive p"
  shows "Set c v p =
           SetterGuard_dtor
             (call_setter c (setter v) (log_call SetterCall (SetterGuard_ctor p))) \<and>
         m_SetterActive (log_call SetterCall (SetterGuard_ctor p)) \<and>
         \<not> m_SetterActive (Set c v p) \<and>
         setter_calls (Set c v p) = setter_calls p + 1"
proof -
  let ?entry = "log_call SetterCall (SetterGuard_ctor p)"
  have eq: "Set c v p = SetterGuard_dtor (call_setter c (setter v) ?entry)"
    using SetST_dispatch [OF assms] by simp
  have active: "m_SetterActive ?entry"
    by (simp add: scoped_defs)
  have cleared: "\<not> m_SetterActive (Set c v p)"
    using flags_kept(4) [of c v p] assms(3) by (simp add: flags_def)
  have "setter_calls (Set c v p) = setter_calls (call_setter c (setter v) ?entry)"
    unfolding eq by (simp add: getter_calls_enter)
  also have "\<dots> = setter_calls ?entry"
    by (rule setter_quiet(2) [OF active])
  finally have "setter_calls (Set c v p) = setter_calls p + 1"
    by (simp add: getter_calls_enter)
  with eq active cleared show ?thesis
    by blast
qed

text \<open>
  The setter of the example program: a top-level write stores the clamped value, and the
  clamp is the nearest point of the interval from 0 to 150.
\<close>

lemma sint_std_clamp: "sint (std_clamp v 0 150) = max 0 (min 150 (sint v))"
  by (simp add: std_clamp_def word_sless_alt max_def min_def)

lemma Set_SetAge:
  assumes "SetterType c \<noteq> NoSetter" and "m_Setter p = Some SetAge" and "\<not> m_SetterActive p"
  shows "Set c v p = (log_call SetterCall p)\<lparr>m_Value := std_clamp v 0 150\<rparr>"
proof -
  let ?entry = "log_call SetterCall (SetterGuard_ctor p)"
  have active: "m_SetterActive ?entry"
    by (simp add: scoped_defs)
  have "call_setter c (SetAge v) ?entry = ?entry\<lparr>m_Value := std_clamp v 0 150\<rparr>"
    using active by (simp add: SetAge_def SetST_raw)
  then have "Set c v p = SetterGuard_dtor (?entry\<lparr>m_Value := std_clamp v 0 150\<rparr>)"
    using SetST_dispatch [OF assms] by simp
  also have "\<dots> = (log_call SetterCall p)\<lparr>m_Value := std_clamp v 0 150\<rparr>"
    using assms(3) by (simp add: scoped_defs)
  finally show ?thesis .
qed

text \<open>\<^verbatim>\<open>ApplyOperation\<close> inherits the frame properties of \<^verbatim>\<open>GetST\<close> and \<^verbatim>\<open>SetST\<close>.\<close>

lemma ApplyOperation_m_Getter_unused:
  assumes "GetterType c = NoGetter"
  shows "ApplyOperation c f (p\<lparr>m_Getter := g\<rparr>) = (ApplyOperation c f p)\<lparr>m_Getter := g\<rparr>"
  by (simp add: ApplyOperation_def m_Getter_unused(5,6) [OF assms] split: prod.splits)

lemma ApplyOperation_m_Setter_unused:
  assumes "SetterType c = NoSetter"
  shows "ApplyOperation c f (p\<lparr>m_Setter := s\<rparr>) = (ApplyOperation c f p)\<lparr>m_Setter := s\<rparr>"
  by (simp add: ApplyOperation_def m_Setter_unused(5,6) [OF assms] split: prod.splits)

lemma ApplyOperation_slots_kept:
  "m_Getter (ApplyOperation c f p) = m_Getter p \<and> m_Setter (ApplyOperation c f p) = m_Setter p"
proof (cases "GetST c p")
  case (Pair x q)
  with slots_kept(5) [of c p] slots_kept(6) [of c "f x" q] show ?thesis
    by (simp add: ApplyOperation_def)
qed

section \<open>The claims\<close>

subsection \<open>C1: a write without a custom setter, then a read\<close>

text \<open>
  C1, as amended. For every value \<open>v\<close> of the wrapped type, writing \<open>v\<close> to a writable
  property that has no custom setter and no custom getter, and then reading the property,
  returns exactly \<open>v\<close>: the assignment compiles, the write stores \<open>v\<close> in the underlying
  value and changes nothing else, and the read returns the underlying value and leaves
  the property as it is.
\<close>

theorem C1_write_then_read:
  assumes "\<not> ReadOnly c" and "\<not> has_custom_setter c p" and "\<not> has_custom_getter c p"
  shows "operator_assign c v p = Some (Set c v p) \<and>
         Set c v p = p\<lparr>m_Value := v\<rparr> \<and>
         Get c (Set c v p) = (v, Set c v p)"
proof -
  from assms(2) have s: "SetterType c = NoSetter \<or> m_Setter p = None \<or> m_SetterActive p"
    by (auto simp: has_custom_setter_def)
  from assms(3) have g:
    "GetterType c = NoGetter \<or> m_Getter (p\<lparr>m_Value := v\<rparr>) = None
       \<or> m_GetterActive (p\<lparr>m_Value := v\<rparr>)"
    by (auto simp: has_custom_getter_def)
  have w: "Set c v p = p\<lparr>m_Value := v\<rparr>"
    using SetST_raw [OF s] by simp
  have "Get c (p\<lparr>m_Value := v\<rparr>) = (v, p\<lparr>m_Value := v\<rparr>)"
    using GetST_raw [OF g] by simp
  with w show ?thesis
    using assms(1) by (simp add: operator_assign_def)
qed

text \<open>An instance: \<^verbatim>\<open>PropertyRWMT<int> p(0); p = 42;\<close> and a read of \<open>p\<close>.\<close>

theorem C1_write_then_read_witness:
  "\<not> ReadOnly PropertyRWMT \<and>
   \<not> has_custom_setter PropertyRWMT (Property_value (0 :: cpp_int)) \<and>
   \<not> has_custom_getter PropertyRWMT (Property_value (0 :: cpp_int)) \<and>
   operator_assign PropertyRWMT (42 :: cpp_int) (Property_value 0)
     = Some (Set PropertyRWMT 42 (Property_value 0)) \<and>
   Set PropertyRWMT (42 :: cpp_int) (Property_value 0) = (Property_value 0)\<lparr>m_Value := 42\<rparr> \<and>
   Get PropertyRWMT (Set PropertyRWMT (42 :: cpp_int) (Property_value 0))
     = (42, Set PropertyRWMT 42 (Property_value 0))"
proof -
  have h1: "\<not> ReadOnly PropertyRWMT"
    by (simp add: PropertyRWMT_def)
  have h2: "\<not> has_custom_setter PropertyRWMT (Property_value (0 :: cpp_int))"
    by (simp add: has_custom_setter_def PropertyRWMT_def)
  have h3: "\<not> has_custom_getter PropertyRWMT (Property_value (0 :: cpp_int))"
    by (simp add: has_custom_getter_def PropertyRWMT_def)
  from C1_write_then_read [OF h1 h2 h3, of 42] h1 h2 h3 show ?thesis
    by blast
qed

text \<open>
  Without the condition on the getter the statement fails. A
  \<^verbatim>\<open>PropertyRWG<std::string>\<close> is writable and has no setter; with the getter of the
  example program attached, writing \<^verbatim>\<open>"Y"\<close> is followed by a read of \<^verbatim>\<open>"Y USA"\<close>.
\<close>

theorem C1_custom_getter_counterexample:
  "\<not> ReadOnly (PropertyRWG GetterTypeValue) \<and>
   \<not> has_custom_setter (PropertyRWG GetterTypeValue)
        (Property_getter ''X'' (Some (GetAddress predefinedCountry))) \<and>
   operator_assign (PropertyRWG GetterTypeValue) ''Y''
        (Property_getter ''X'' (Some (GetAddress predefinedCountry)))
     = Some (Set (PropertyRWG GetterTypeValue) ''Y''
              (Property_getter ''X'' (Some (GetAddress predefinedCountry)))) \<and>
   fst (Get (PropertyRWG GetterTypeValue)
         (Set (PropertyRWG GetterTypeValue) ''Y''
           (Property_getter ''X'' (Some (GetAddress predefinedCountry)))))
     = ''Y USA'' \<and>
   ''Y USA'' \<noteq> ''Y''"
  by (simp add: PropertyRWG_def Property_getter_def has_custom_setter_def operator_assign_def
      GetAddress_def predefinedCountry_def SetST.simps GetST.simps scoped_defs)


subsection \<open>C2: re-entrancy\<close>

text \<open>
  C2. For a property with a custom getter, a top-level read (one made while the in-getter
  flag is clear) is the call of the getter from the state in which the flag is set,
  followed by clearing the flag; afterwards the flag is clear, and the getter has been
  invoked exactly once, however often its body reads the property. A read made while the
  flag is set returns the raw stored value and leaves the property untouched. The same
  holds for writes, the setter and the in-setter flag: a nested write stores the value
  directly. Every call of a callback body, every read and every write leaves both flags as
  it found them, so a flag set on entry stays set until the callback returns. At most two
  flags are clear and entering a callback uses one up, which bounds the depth of the
  recursion by two.
\<close>

theorem C2_reentrancy:
  "(GetterType c \<noteq> NoGetter \<and> m_Getter p = Some getter \<and> \<not> m_GetterActive p \<longrightarrow>
      Get c p =
        (case call_getter c getter (log_call GetterCall (GetterGuard_ctor p)) of
           (r, p') \<Rightarrow> (r, GetterGuard_dtor p')) \<and>
      m_GetterActive (log_call GetterCall (GetterGuard_ctor p)) \<and>
      \<not> m_GetterActive (snd (Get c p)) \<and>
      getter_calls (snd (Get c p)) = getter_calls p + 1) \<and>
   (m_GetterActive p \<longrightarrow> Get c p = (m_Value p, p)) \<and>
   (SetterType c \<noteq> NoSetter \<and> m_Setter p = Some setter \<and> \<not> m_SetterActive p \<longrightarrow>
      Set c v p =
        SetterGuard_dtor
          (call_setter c (setter v) (log_call SetterCall (SetterGuard_ctor p))) \<and>
      m_SetterActive (log_call SetterCall (SetterGuard_ctor p)) \<and>
      \<not> m_SetterActive (Set c v p) \<and>
      setter_calls (Set c v p) = setter_calls p + 1) \<and>
   (m_SetterActive p \<longrightarrow> Set c v p = p\<lparr>m_Value := v\<rparr>) \<and>
   flags (snd (call_getter c gb p)) = flags p \<and>
   flags (call_setter c sb p) = flags p \<and>
   flags (snd (Get c p)) = flags p \<and>
   flags (Set c v p) = flags p \<and>
   clear_flags p \<le> 2 \<and>
   (\<not> m_GetterActive p \<longrightarrow>
      clear_flags (log_call GetterCall (GetterGuard_ctor p)) < clear_flags p) \<and>
   (\<not> m_SetterActive p \<longrightarrow>
      clear_flags (log_call SetterCall (SetterGuard_ctor p)) < clear_flags p)"
proof -
  have top_read:
    "GetterType c \<noteq> NoGetter \<and> m_Getter p = Some getter \<and> \<not> m_GetterActive p \<longrightarrow>
      Get c p =
        (case call_getter c getter (log_call GetterCall (GetterGuard_ctor p)) of
           (r, p') \<Rightarrow> (r, GetterGuard_dtor p')) \<and>
      m_GetterActive (log_call GetterCall (GetterGuard_ctor p)) \<and>
      \<not> m_GetterActive (snd (Get c p)) \<and>
      getter_calls (snd (Get c p)) = getter_calls p + 1"
    using top_level_read [of c p getter] by blast
  have nested_read: "m_GetterActive p \<longrightarrow> Get c p = (m_Value p, p)"
    by (simp add: GetST_raw)
  have top_write:
    "SetterType c \<noteq> NoSetter \<and> m_Setter p = Some setter \<and> \<not> m_SetterActive p \<longrightarrow>
      Set c v p =
        SetterGuard_dtor
          (call_setter c (setter v) (log_call SetterCall (SetterGuard_ctor p))) \<and>
      m_SetterActive (log_call SetterCall (SetterGuard_ctor p)) \<and>
      \<not> m_SetterActive (Set c v p) \<and>
      setter_calls (Set c v p) = setter_calls p + 1"
    using top_level_write [of c p setter v] by blast
  have nested_write: "m_SetterActive p \<longrightarrow> Set c v p = p\<lparr>m_Value := v\<rparr>"
    by (simp add: SetST_raw)
  have depth: "clear_flags p \<le> 2"
    by (simp add: clear_flags_def)
  from top_read nested_read top_write nested_write depth
    flags_kept(1) [of c gb p] flags_kept(2) [of c sb p] flags_kept(3) [of c p]
    flags_kept(4) [of c v p]
    clear_flags_enter(1) [of p GetterCall] clear_flags_enter(2) [of p SetterCall]
  show ?thesis by blast
qed

text \<open>
  Instances: a read of \<^verbatim>\<open>Address\<close> and a write of 200 to \<^verbatim>\<open>Age\<close>, at top level and
  from inside the callback.
\<close>

theorem C2_reentrancy_witness:
  "GetterType (PropertyROG GetterTypeValue) \<noteq> NoGetter \<and>
   m_Getter Person_Address = Some (GetAddress predefinedCountry) \<and>
   \<not> m_GetterActive Person_Address \<and>
   \<not> m_GetterActive (snd (Get (PropertyROG GetterTypeValue) Person_Address)) \<and>
   getter_calls (snd (Get (PropertyROG GetterTypeValue) Person_Address)) = 1 \<and>
   m_GetterActive (GetterGuard_ctor Person_Address) \<and>
   Get (PropertyROG GetterTypeValue) (GetterGuard_ctor Person_Address)
     = (''123 Main St Mega City MS 12345'', GetterGuard_ctor Person_Address) \<and>
   SetterType (PropertyRWSMT SetterTypeValue) \<noteq> NoSetter \<and>
   m_Setter Person_Age = Some SetAge \<and>
   \<not> m_SetterActive Person_Age \<and>
   \<not> m_SetterActive (Set (PropertyRWSMT SetterTypeValue) 200 Person_Age) \<and>
   setter_calls (Set (PropertyRWSMT SetterTypeValue) 200 Person_Age) = 1 \<and>
   m_SetterActive (SetterGuard_ctor Person_Age) \<and>
   Set (PropertyRWSMT SetterTypeValue) 200 (SetterGuard_ctor Person_Age)
     = (SetterGuard_ctor Person_Age)\<lparr>m_Value := 200\<rparr>"
proof -
  let ?cA = "PropertyROG GetterTypeValue" and ?cG = "PropertyRWSMT SetterTypeValue"
  have a1: "GetterType ?cA \<noteq> NoGetter"
    by (simp add: PropertyROG_def)
  have a2: "m_Getter Person_Address = Some (GetAddress predefinedCountry)"
    by (simp add: Person_Address_def Property_getter_def)
  have a3: "\<not> m_GetterActive Person_Address"
    by (simp add: Person_Address_def Property_getter_def)
  have a4: "m_GetterActive (GetterGuard_ctor Person_Address)"
    by (simp add: GetterGuard_ctor_def)
  have a5: "getter_calls Person_Address = 0"
    by (simp add: getter_calls_def Person_Address_def Property_getter_def)
  have a6: "m_Value (GetterGuard_ctor Person_Address) = ''123 Main St Mega City MS 12345''"
    by (simp add: GetterGuard_ctor_def Person_Address_def Property_getter_def)
  have g1: "SetterType ?cG \<noteq> NoSetter"
    by (simp add: PropertyRWSMT_def)
  have g2: "m_Setter Person_Age = Some SetAge"
    by (simp add: Person_Age_def Property_setter_def)
  have g3: "\<not> m_SetterActive Person_Age"
    by (simp add: Person_Age_def Property_setter_def)
  have g4: "m_SetterActive (SetterGuard_ctor Person_Age)"
    by (simp add: SetterGuard_ctor_def)
  have g5: "setter_calls Person_Age = 0"
    by (simp add: setter_calls_def Person_Age_def Property_setter_def)
  from C2_reentrancy [where c = ?cA and p = Person_Address
      and getter = "GetAddress predefinedCountry"] a1 a2 a3
  have r1: "\<not> m_GetterActive (snd (Get ?cA Person_Address)) \<and>
            getter_calls (snd (Get ?cA Person_Address)) = getter_calls Person_Address + 1"
    by blast
  from C2_reentrancy [where c = ?cA and p = "GetterGuard_ctor Person_Address"] a4
  have r2: "Get ?cA (GetterGuard_ctor Person_Address)
              = (m_Value (GetterGuard_ctor Person_Address), GetterGuard_ctor Person_Address)"
    by blast
  from C2_reentrancy [where c = ?cG and p = Person_Age and setter = SetAge and v = 200]
    g1 g2 g3
  have r3: "\<not> m_SetterActive (Set ?cG 200 Person_Age) \<and>
            setter_calls (Set ?cG 200 Person_Age) = setter_calls Person_Age + 1"
    by blast
  from C2_reentrancy [where c = ?cG and p = "SetterGuard_ctor Person_Age" and v = 200] g4
  have r4: "Set ?cG 200 (SetterGuard_ctor Person_Age)
              = (SetterGuard_ctor Person_Age)\<lparr>m_Value := 200\<rparr>"
    by blast
  from r1 r2 r3 r4 a1 a2 a3 a4 a5 a6 g1 g2 g3 g4 g5 show ?thesis
    by (simp del: Get.simps Set.simps)
qed


subsection \<open>C3: read-only properties\<close>

text \<open>
  C3 says that no operation available on a read-only property can change its stored value.
  The code restricts \<^verbatim>\<open>operator=\<close> and \<^verbatim>\<open>SetSetter\<close> to writable properties and
  leaves the compound assignments and the increments unrestricted. Evaluated on the
  read-only \<^verbatim>\<open>Name\<close> of the example program (\<^verbatim>\<open>PropertyRO<std::string>\<close>): the
  assignment and \<^verbatim>\<open>SetSetter\<close> do not compile, and \<^verbatim>\<open>Name += " Smith"\<close> compiles and
  changes the stored value from \<^verbatim>\<open>"John"\<close> to \<^verbatim>\<open>"John Smith"\<close>. Likewise \<^verbatim>\<open>++p\<close> and
  \<^verbatim>\<open>p--\<close> on a \<^verbatim>\<open>PropertyRO<int>\<close> holding 5 leave 6 and 4.
\<close>

theorem C3_read_only_value_changes:
  "ReadOnly PropertyRO \<and>
   operator_assign PropertyRO ''Bob'' (Person_Name ''John'') = None \<and>
   SetSetter PropertyRO None (Person_Name ''John'') = None \<and>
   m_Value (Person_Name ''John'') = ''John'' \<and>
   m_Value (operator_compound std_string_op AddAssign '' Smith'' PropertyRO (Person_Name ''John''))
     = ''John Smith'' \<and>
   m_Value (operator_pre_inc (\<lambda>v. v + 1) PropertyRO (Property_value (5 :: cpp_int))) = 6 \<and>
   m_Value (operator_post_dec (\<lambda>v. v - 1) PropertyRO (Property_value (5 :: cpp_int))) = 4"
  by (simp add: PropertyRO_def operator_assign_def SetSetter_def Person_Name_def
      Property_value_def operator_compound_def operator_pre_inc_def operator_post_dec_def
      postfix_lambda_def ApplyOperation_def std_string_op_def GetST.simps SetST.simps)

subsection \<open>C4: compound assignment\<close>



subsection \<open>C5: the clamping setter\<close>

text \<open>
  C5, as amended. Take a writable property that has no custom getter and whose custom
  setter is \<^verbatim>\<open>SetAge\<close>, which assigns the value clamped to the interval from 0 to 150 back
  to the property from inside the setter. A top-level write of any \<open>v\<close> compiles and
  stores the clamp of \<open>v\<close>, which is the nearest bound when \<open>v\<close> is out of range and
  \<open>v\<close> itself otherwise, and the next read returns it: writing 200 makes the next read
  return 150, and writing -5 makes the next read return 0.
\<close>

theorem C5_clamping_setter:
  assumes "\<not> ReadOnly c" and "SetterType c \<noteq> NoSetter" and "m_Setter p = Some SetAge"
    and "\<not> m_SetterActive p" and "\<not> has_custom_getter c p"
  shows "operator_assign c v p = Some (Set c v p) \<and>
         m_Value (Set c v p) = std_clamp v 0 150 \<and>
         fst (Get c (Set c v p)) = std_clamp v 0 150 \<and>
         sint (std_clamp v 0 150) = max 0 (min 150 (sint v)) \<and>
         fst (Get c (Set c 200 p)) = 150 \<and>
         fst (Get c (Set c (- 5) p)) = 0"
proof -
  have wr: "Set c w p = (log_call SetterCall p)\<lparr>m_Value := std_clamp w 0 150\<rparr>" for w
    by (rule Set_SetAge [OF assms(2-4)])
  have st: "m_Value (Set c w p) = std_clamp w 0 150" for w
    unfolding wr by simp
  have rd: "fst (Get c (Set c w p)) = std_clamp w 0 150" for w
  proof -
    have "GetterType c = NoGetter \<or> m_Getter (Set c w p) = None \<or> m_GetterActive (Set c w p)"
      using assms(5) unfolding wr by (auto simp: has_custom_getter_def log_call_def)
    then have "GetST c (Set c w p) = (m_Value (Set c w p), Set c w p)"
      by (rule GetST_raw)
    then show ?thesis
      unfolding wr by simp
  qed
  have c200: "std_clamp 200 0 150 = 150" and cm5: "std_clamp (- 5) 0 150 = 0"
    by (simp_all add: std_clamp_def word_sless_alt)
  have compiles: "operator_assign c v p = Some (Set c v p)"
    using assms(1) by (simp add: operator_assign_def)
  from compiles st [of v] rd [of v] rd [of 200] rd [of "- 5"] sint_std_clamp [of v]
  show ?thesis
    unfolding c200 cm5 by blast
qed

text \<open>An instance: \<^verbatim>\<open>Age\<close> as \<^verbatim>\<open>Person\<close> constructs it, written with 200, -5 and 42.\<close>

theorem C5_clamping_setter_witness:
  "\<not> ReadOnly (PropertyRWSMT SetterTypeValue) \<and>
   SetterType (PropertyRWSMT SetterTypeValue) \<noteq> NoSetter \<and>
   m_Setter Person_Age = Some SetAge \<and>
   \<not> m_SetterActive Person_Age \<and>
   \<not> has_custom_getter (PropertyRWSMT SetterTypeValue) Person_Age \<and>
   fst (Get (PropertyRWSMT SetterTypeValue) (Set (PropertyRWSMT SetterTypeValue) 200 Person_Age))
     = 150 \<and>
   fst (Get (PropertyRWSMT SetterTypeValue) (Set (PropertyRWSMT SetterTypeValue) (- 5) Person_Age))
     = 0 \<and>
   fst (Get (PropertyRWSMT SetterTypeValue) (Set (PropertyRWSMT SetterTypeValue) 42 Person_Age))
     = 42"
proof -
  let ?c = "PropertyRWSMT SetterTypeValue"
  have h1: "\<not> ReadOnly ?c" and h2: "SetterType ?c \<noteq> NoSetter"
    by (simp_all add: PropertyRWSMT_def)
  have h3: "m_Setter Person_Age = Some SetAge" and h4: "\<not> m_SetterActive Person_Age"
    by (simp_all add: Person_Age_def Property_setter_def)
  have h5: "\<not> has_custom_getter ?c Person_Age"
    by (simp add: has_custom_getter_def PropertyRWSMT_def)
  have c42: "std_clamp 42 0 150 = 42"
    by (simp add: std_clamp_def word_sless_alt)
  from C5_clamping_setter [OF h1 h2 h3 h4 h5, of 42]
  have r: "fst (Get ?c (Set ?c 200 Person_Age)) = 150"
      "fst (Get ?c (Set ?c (- 5) Person_Age)) = 0"
      "fst (Get ?c (Set ?c 42 Person_Age)) = std_clamp 42 0 150"
    by blast+
  from r(1,2) r(3) [unfolded c42] h1 h2 h3 h4 h5 show ?thesis
    by blast
qed

text \<open>
  Without the condition on the getter the statement fails. A \<^verbatim>\<open>PropertyRWGS<int>\<close> is
  writable; give it the setter \<^verbatim>\<open>SetAge\<close> and a getter that returns the property's value
  plus one. Writing 200 stores 150, and the next read returns 151.
\<close>

theorem C5_custom_getter_counterexample:
  "\<not> ReadOnly (PropertyRWGS GetterTypeValue SetterTypeValue) \<and>
   SetterType (PropertyRWGS GetterTypeValue SetterTypeValue) \<noteq> NoSetter \<and>
   m_Setter (Property_getter_setter 0 (Some (Read (\<lambda>a. Return (a + 1)))) (Some SetAge))
     = Some SetAge \<and>
   \<not> m_SetterActive
       (Property_getter_setter 0 (Some (Read (\<lambda>a. Return (a + 1)))) (Some SetAge)) \<and>
   operator_assign (PropertyRWGS GetterTypeValue SetterTypeValue) 200
       (Property_getter_setter 0 (Some (Read (\<lambda>a. Return (a + 1)))) (Some SetAge))
     = Some (Set (PropertyRWGS GetterTypeValue SetterTypeValue) 200
         (Property_getter_setter 0 (Some (Read (\<lambda>a. Return (a + 1)))) (Some SetAge))) \<and>
   m_Value (Set (PropertyRWGS GetterTypeValue SetterTypeValue) 200
       (Property_getter_setter 0 (Some (Read (\<lambda>a. Return (a + 1)))) (Some SetAge))) = 150 \<and>
   fst (Get (PropertyRWGS GetterTypeValue SetterTypeValue)
         (Set (PropertyRWGS GetterTypeValue SetterTypeValue) 200
           (Property_getter_setter 0 (Some (Read (\<lambda>a. Return (a + 1)))) (Some SetAge))))
     = 151 \<and>
   (151 :: cpp_int) \<noteq> 150"
  by (simp add: PropertyRWGS_def Property_getter_setter_def operator_assign_def SetAge_def
      std_clamp_def word_sless_alt SetST.simps GetST.simps scoped_defs)

subsection \<open>C6: the appending getter\<close>

text \<open>
  C6. Take a property whose custom getter is \<^verbatim>\<open>GetAddress\<close>, which reads its own
  property and appends a fixed suffix. Every top-level read returns the raw stored value
  followed by the suffix; the raw stored value is the same after the read (the read only
  adds its entry to the log of callback invocations); and a second read returns the same
  string again: the suffix does not accumulate.
\<close>

theorem C6_appending_getter:
  assumes "GetterType c \<noteq> NoGetter" and "m_Getter p = Some (GetAddress suffix)"
    and "\<not> m_GetterActive p"
  shows "Get c p = (m_Value p @ suffix, log_call GetterCall p) \<and>
         m_Value (snd (Get c p)) = m_Value p \<and>
         fst (Get c (snd (Get c p))) = m_Value p @ suffix"
proof -
  have once: "Get c q = (m_Value q @ suffix, log_call GetterCall q)"
    if q: "m_Getter q = Some (GetAddress suffix)" "\<not> m_GetterActive q" for q
  proof -
    let ?entry = "log_call GetterCall (GetterGuard_ctor q)"
    have active: "m_GetterActive ?entry"
      by (simp add: scoped_defs)
    have "call_getter c (GetAddress suffix) ?entry = (m_Value ?entry @ suffix, ?entry)"
      using active by (simp add: GetAddress_def GetST_raw)
    then have "Get c q = (m_Value ?entry @ suffix, GetterGuard_dtor ?entry)"
      using GetST_dispatch [OF assms(1) q] by simp
    moreover have "m_Value ?entry = m_Value q" and "GetterGuard_dtor ?entry = log_call GetterCall q"
      using q(2) by (simp_all add: scoped_defs)
    ultimately show ?thesis by simp
  qed
  have first: "Get c p = (m_Value p @ suffix, log_call GetterCall p)"
    by (rule once [OF assms(2,3)])
  have "Get c (log_call GetterCall p)
          = (m_Value (log_call GetterCall p) @ suffix, log_call GetterCall (log_call GetterCall p))"
    by (rule once) (simp_all add: log_call_def assms)
  then have "fst (Get c (snd (Get c p))) = m_Value p @ suffix"
    unfolding first by (simp add: log_call_def)
  moreover have "m_Value (snd (Get c p)) = m_Value p"
    unfolding first by (simp add: log_call_def)
  ultimately show ?thesis
    using first by blast
qed

text \<open>An instance: \<^verbatim>\<open>Address\<close> as \<^verbatim>\<open>Person\<close> constructs it, read twice.\<close>

theorem C6_appending_getter_witness:
  "GetterType (PropertyROG GetterTypeValue) \<noteq> NoGetter \<and>
   m_Getter Person_Address = Some (GetAddress predefinedCountry) \<and>
   \<not> m_GetterActive Person_Address \<and>
   fst (Get (PropertyROG GetterTypeValue) Person_Address)
     = ''123 Main St Mega City MS 12345 USA'' \<and>
   m_Value (snd (Get (PropertyROG GetterTypeValue) Person_Address))
     = ''123 Main St Mega City MS 12345'' \<and>
   fst (Get (PropertyROG GetterTypeValue) (snd (Get (PropertyROG GetterTypeValue) Person_Address)))
     = ''123 Main St Mega City MS 12345 USA''"
proof -
  let ?c = "PropertyROG GetterTypeValue"
  have h1: "GetterType ?c \<noteq> NoGetter"
    by (simp add: PropertyROG_def)
  have h2: "m_Getter Person_Address = Some (GetAddress predefinedCountry)"
    and h3: "\<not> m_GetterActive Person_Address"
    by (simp_all add: Person_Address_def Property_getter_def)
  have v: "m_Value Person_Address @ predefinedCountry = ''123 Main St Mega City MS 12345 USA''"
    "m_Value Person_Address = ''123 Main St Mega City MS 12345''"
    by (simp_all add: Person_Address_def Property_getter_def predefinedCountry_def)
  from C6_appending_getter [OF h1 h2 h3]
  have r: "fst (Get ?c Person_Address) = m_Value Person_Address @ predefinedCountry"
    "m_Value (snd (Get ?c Person_Address)) = m_Value Person_Address"
    "fst (Get ?c (snd (Get ?c Person_Address))) = m_Value Person_Address @ predefinedCountry"
    by (metis fst_conv)+
  from r v h1 h2 h3 show ?thesis
    by (simp del: Get.simps)
qed

subsection \<open>C7: setting a slot the configuration does not have\<close>

text \<open>
  C7, as amended. On a property whose type has no getter slot, \<^verbatim>\<open>SetGetter\<close> called with
  the only argument that compiles there, the empty \<^verbatim>\<open>NoGetter\<close> object, is a silent
  no-op: it returns normally and only assigns the empty slot, so the stored value is the
  same, every later read, write and compound operation gives the result it would have given
  without the call, and an object whose empty slot holds the empty object (every object the
  constructors build) is unchanged altogether. The same holds for \<^verbatim>\<open>SetSetter\<close> called
  with the empty \<^verbatim>\<open>NoSetter\<close> object on a writable property whose type has no setter
  slot. Passing a callback to a slot of empty type does not compile, and neither does
  \<^verbatim>\<open>SetSetter\<close> on a read-only property.
\<close>

theorem C7_empty_slot_object_is_noop:
  "(GetterType c = NoGetter \<longrightarrow>
      SetGetter c None p = Some (p\<lparr>m_Getter := None\<rparr>) \<and>
      m_Value (p\<lparr>m_Getter := None\<rparr>) = m_Value p \<and>
      Get c (p\<lparr>m_Getter := None\<rparr>) = (fst (Get c p), (snd (Get c p))\<lparr>m_Getter := None\<rparr>) \<and>
      Set c v (p\<lparr>m_Getter := None\<rparr>) = (Set c v p)\<lparr>m_Getter := None\<rparr> \<and>
      ApplyOperation c f (p\<lparr>m_Getter := None\<rparr>) = (ApplyOperation c f p)\<lparr>m_Getter := None\<rparr> \<and>
      (m_Getter p = None \<longrightarrow> SetGetter c None p = Some p) \<and>
      SetGetter c (Some g) p = None) \<and>
   (SetterType c = NoSetter \<and> \<not> ReadOnly c \<longrightarrow>
      SetSetter c None p = Some (p\<lparr>m_Setter := None\<rparr>) \<and>
      m_Value (p\<lparr>m_Setter := None\<rparr>) = m_Value p \<and>
      Get c (p\<lparr>m_Setter := None\<rparr>) = (fst (Get c p), (snd (Get c p))\<lparr>m_Setter := None\<rparr>) \<and>
      Set c v (p\<lparr>m_Setter := None\<rparr>) = (Set c v p)\<lparr>m_Setter := None\<rparr> \<and>
      ApplyOperation c f (p\<lparr>m_Setter := None\<rparr>) = (ApplyOperation c f p)\<lparr>m_Setter := None\<rparr> \<and>
      (m_Setter p = None \<longrightarrow> SetSetter c None p = Some p) \<and>
      SetSetter c (Some s) p = None) \<and>
   (ReadOnly c \<longrightarrow> SetSetter c s' p = None)"
proof (intro conjI impI)
  assume ng: "GetterType c = NoGetter"
  show "SetGetter c None p = Some (p\<lparr>m_Getter := None\<rparr>)"
    using ng by (simp add: SetGetter_def)
  show "m_Value (p\<lparr>m_Getter := None\<rparr>) = m_Value p"
    by simp
  show "Get c (p\<lparr>m_Getter := None\<rparr>) = (fst (Get c p), (snd (Get c p))\<lparr>m_Getter := None\<rparr>)"
    by (rule m_Getter_unused(3) [OF ng])
  show "Set c v (p\<lparr>m_Getter := None\<rparr>) = (Set c v p)\<lparr>m_Getter := None\<rparr>"
    by (rule m_Getter_unused(4) [OF ng])
  show "ApplyOperation c f (p\<lparr>m_Getter := None\<rparr>) = (ApplyOperation c f p)\<lparr>m_Getter := None\<rparr>"
    by (rule ApplyOperation_m_Getter_unused [OF ng])
  show "SetGetter c None p = Some p" if "m_Getter p = None"
    using that ng by (simp add: SetGetter_def)
  show "SetGetter c (Some g) p = None"
    using ng by (simp add: SetGetter_def)
next
  assume h: "SetterType c = NoSetter \<and> \<not> ReadOnly c"
  then have ns: "SetterType c = NoSetter" and rw: "\<not> ReadOnly c"
    by simp_all
  show "SetSetter c None p = Some (p\<lparr>m_Setter := None\<rparr>)"
    using ns rw by (simp add: SetSetter_def)
  show "m_Value (p\<lparr>m_Setter := None\<rparr>) = m_Value p"
    by simp
  show "Get c (p\<lparr>m_Setter := None\<rparr>) = (fst (Get c p), (snd (Get c p))\<lparr>m_Setter := None\<rparr>)"
    by (rule m_Setter_unused(3) [OF ns])
  show "Set c v (p\<lparr>m_Setter := None\<rparr>) = (Set c v p)\<lparr>m_Setter := None\<rparr>"
    by (rule m_Setter_unused(4) [OF ns])
  show "ApplyOperation c f (p\<lparr>m_Setter := None\<rparr>) = (ApplyOperation c f p)\<lparr>m_Setter := None\<rparr>"
    by (rule ApplyOperation_m_Setter_unused [OF ns])
  show "SetSetter c None p = Some p" if "m_Setter p = None"
    using that ns rw by (simp add: SetSetter_def)
  show "SetSetter c (Some s) p = None"
    using ns by (simp add: SetSetter_def)
next
  assume "ReadOnly c"
  then show "SetSetter c s' p = None"
    by (simp add: SetSetter_def)
qed

text \<open>
  Instances: \<^verbatim>\<open>Age.SetGetter(NoGetter{})\<close> on the \<^verbatim>\<open>Age\<close> of the example program, whose
  type has no getter slot, after which a write of 200 still stores 150; and
  \<^verbatim>\<open>SetSetter(NoSetter{})\<close> on a \<^verbatim>\<open>PropertyRW<int>\<close>.
\<close>

theorem C7_empty_slot_object_is_noop_witness:
  "GetterType (PropertyRWSMT SetterTypeValue) = NoGetter \<and>
   m_Getter Person_Age = None \<and>
   SetGetter (PropertyRWSMT SetterTypeValue) None Person_Age = Some Person_Age \<and>
   m_Value (Set (PropertyRWSMT SetterTypeValue) 200 Person_Age) = 150 \<and>
   SetterType PropertyRW = NoSetter \<and>
   \<not> ReadOnly PropertyRW \<and>
   m_Setter (Property_value (7 :: cpp_int)) = None \<and>
   SetSetter PropertyRW None (Property_value (7 :: cpp_int)) = Some (Property_value 7)"
proof -
  have a1: "GetterType (PropertyRWSMT SetterTypeValue) = NoGetter"
    by (simp add: PropertyRWSMT_def)
  have a2: "m_Getter Person_Age = None"
    by (simp add: Person_Age_def Property_setter_def)
  have a3: "m_Value (Set (PropertyRWSMT SetterTypeValue) 200 Person_Age) = 150"
    by (simp add: PropertyRWSMT_def Person_Age_def Property_setter_def SetAge_def
        std_clamp_def word_sless_alt SetST.simps scoped_defs)
  have b1: "SetterType PropertyRW = NoSetter" and b2: "\<not> ReadOnly PropertyRW"
    by (simp_all add: PropertyRW_def)
  have b3: "m_Setter (Property_value (7 :: cpp_int)) = None"
    by (simp add: Property_value_def)
  from C7_empty_slot_object_is_noop [where c = "PropertyRWSMT SetterTypeValue"
      and p = Person_Age] a1 a2
  have r1: "SetGetter (PropertyRWSMT SetterTypeValue) None Person_Age = Some Person_Age"
    by blast
  from C7_empty_slot_object_is_noop [where c = PropertyRW
      and p = "Property_value (7 :: cpp_int)"] b1 b2 b3
  have r2: "SetSetter PropertyRW None (Property_value (7 :: cpp_int)) = Some (Property_value 7)"
    by blast
  from a1 a2 a3 b1 b2 b3 r1 r2 show ?thesis
    by blast
qed

text \<open>
  The claim as it stands, for every call of \<^verbatim>\<open>SetGetter\<close> on a property without a getter
  slot and of \<^verbatim>\<open>SetSetter\<close> on one without a setter slot, fails. The read-only \<^verbatim>\<open>Name\<close>
  of the example program has no setter slot, and \<^verbatim>\<open>SetSetter\<close> on it is rejected by the
  compiler whatever the argument; \<^verbatim>\<open>Age\<close> has no getter slot, and \<^verbatim>\<open>SetGetter\<close> with a
  getter as argument is rejected by the compiler as well.
\<close>

theorem C7_rejected_calls_counterexample:
  "SetterType PropertyRO = NoSetter \<and>
   SetSetter PropertyRO None (Person_Name ''John'') = None \<and>
   GetterType (PropertyRWSMT SetterTypeValue) = NoGetter \<and>
   SetGetter (PropertyRWSMT SetterTypeValue) (Some (Return 0)) Person_Age = None"
  by (simp add: PropertyRO_def PropertyRWSMT_def SetSetter_def SetGetter_def)

subsection \<open>C8: the lock of a thread-safe property\<close>

text \<open>
  C8 says that a thread-safe property holds its lock for the full duration of every read
  and write, the callback included. Evaluated on \<^verbatim>\<open>Age\<close> of the example program (a
  \<^verbatim>\<open>PropertyRWSMT<int>\<close>) and the assignment \<^verbatim>\<open>Age = 50\<close>: the lock guard raises the hold
  count to one, but the locking statement as a whole leaves it at zero, and the setter is
  invoked with hold count zero, that is, with the mutex released.
\<close>

theorem C8_setter_runs_unlocked:
  "ThreadSafe (PropertyRWSMT SetterTypeValue) \<and>
   m_Mutex Person_Age = 0 \<and>
   m_Mutex (lock_guard_ctor Person_Age) = 1 \<and>
   m_Mutex (lock_block (PropertyRWSMT SetterTypeValue) Person_Age) = 0 \<and>
   operator_assign (PropertyRWSMT SetterTypeValue) 50 Person_Age
     = Some (Set (PropertyRWSMT SetterTypeValue) 50 Person_Age) \<and>
   call_log (Set (PropertyRWSMT SetterTypeValue) 50 Person_Age) = [SetterCall 0] \<and>
   m_Value (Set (PropertyRWSMT SetterTypeValue) 50 Person_Age) = 50"
  by (simp add: PropertyRWSMT_def operator_assign_def Person_Age_def Property_setter_def
      SetAge_def std_clamp_def word_sless_alt GetST.simps SetST.simps scoped_defs)

subsection \<open>C9: setting a slot the configuration has\<close>

text \<open>
  C9. On a property whose type has a getter slot, \<^verbatim>\<open>SetGetter\<close> compiles and leaves the
  object exactly as it was, whatever callback it is given; on a writable property whose
  type has a setter slot, so does \<^verbatim>\<open>SetSetter\<close>. Reads, writes and compound operations never change a
  slot either. So the callbacks in the slots, the only ones \<^verbatim>\<open>GetST\<close> and \<^verbatim>\<open>SetST\<close>
  invoke, are those given to the constructor.
\<close>

theorem C9_slot_is_never_installed:
  "(GetterType c \<noteq> NoGetter \<longrightarrow> SetGetter c g p = Some p) \<and>
   (SetterType c \<noteq> NoSetter \<and> \<not> ReadOnly c \<longrightarrow> SetSetter c s p = Some p) \<and>
   m_Getter (snd (Get c p)) = m_Getter p \<and> m_Setter (snd (Get c p)) = m_Setter p \<and>
   m_Getter (Set c v p) = m_Getter p \<and> m_Setter (Set c v p) = m_Setter p \<and>
   m_Getter (ApplyOperation c f p) = m_Getter p \<and>
   m_Setter (ApplyOperation c f p) = m_Setter p"
proof -
  have "SetGetter c g p = Some p" if "GetterType c \<noteq> NoGetter"
    using that by (simp add: SetGetter_def)
  moreover have "SetSetter c s p = Some p" if "SetterType c \<noteq> NoSetter \<and> \<not> ReadOnly c"
    using that by (simp add: SetSetter_def)
  ultimately show ?thesis
    using slots_kept(3) [of c p] slots_kept(4) [of c v p] ApplyOperation_slots_kept [of c f p]
    by blast
qed

text \<open>
  Instances: \<^verbatim>\<open>SetGetter\<close> on \<^verbatim>\<open>Address\<close> with a getter that returns a constant, after
  which a read still returns the address with the country; \<^verbatim>\<open>SetSetter\<close> on \<^verbatim>\<open>Age\<close>.
\<close>

theorem C9_slot_is_never_installed_witness:
  "GetterType (PropertyROG GetterTypeValue) \<noteq> NoGetter \<and>
   SetGetter (PropertyROG GetterTypeValue) (Some (Return ''elsewhere'')) Person_Address
     = Some Person_Address \<and>
   fst (Get (PropertyROG GetterTypeValue) Person_Address)
     = ''123 Main St Mega City MS 12345 USA'' \<and>
   SetterType (PropertyRWSMT SetterTypeValue) \<noteq> NoSetter \<and>
   \<not> ReadOnly (PropertyRWSMT SetterTypeValue) \<and>
   SetSetter (PropertyRWSMT SetterTypeValue) (Some (\<lambda>v. Return ())) Person_Age
     = Some Person_Age"
proof -
  let ?cA = "PropertyROG GetterTypeValue" and ?cG = "PropertyRWSMT SetterTypeValue"
  have a1: "GetterType ?cA \<noteq> NoGetter"
    by (simp add: PropertyROG_def)
  have g1: "SetterType ?cG \<noteq> NoSetter" and g2: "\<not> ReadOnly ?cG"
    by (simp_all add: PropertyRWSMT_def)
  from C9_slot_is_never_installed [where c = ?cA and g = "Some (Return ''elsewhere'')"
      and p = Person_Address] a1
  have r1: "SetGetter ?cA (Some (Return ''elsewhere'')) Person_Address = Some Person_Address"
    by blast
  have r2: "fst (Get ?cA Person_Address) = ''123 Main St Mega City MS 12345 USA''"
    by (simp add: PropertyROG_def Person_Address_def Property_getter_def GetAddress_def
        predefinedCountry_def GetST.simps scoped_defs)
  from C9_slot_is_never_installed [where c = ?cG and s = "Some (\<lambda>v. Return ())"
      and p = Person_Age] g1 g2
  have r3: "SetSetter ?cG (Some (\<lambda>v. Return ())) Person_Age = Some Person_Age"
    by blast
  from a1 g1 g2 r1 r2 r3 show ?thesis
    by (simp del: Get.simps)
qed

subsection \<open>C10: postfix and prefix increment and decrement\<close>

text \<open>
  C10. For every property, \<^verbatim>\<open>p++\<close> is \<^verbatim>\<open>++p\<close> and \<^verbatim>\<open>p--\<close> is \<^verbatim>\<open>--p\<close>: each pair
  returns the same thing, the property itself in the same final state. The postfix lambda
  computes the old value and the incremented one, and only the latter is used. So what
  \<^verbatim>\<open>p++\<close> returns reads as the incremented value, not the old one (stated for a
  property without callbacks, where a read returns the stored value).
\<close>

theorem C10_postfix_is_prefix:
  "operator_post_inc T_inc c p = operator_pre_inc T_inc c p \<and>
   operator_post_dec T_dec c p = operator_pre_dec T_dec c p \<and>
   postfix_lambda T_inc w = (w, T_inc w) \<and>
   (\<not> has_custom_getter c p \<and> \<not> has_custom_setter c p \<longrightarrow>
      Get c (operator_post_inc T_inc c p)
        = (T_inc (m_Value p), operator_post_inc T_inc c p))"
proof -
  have same: "operator_post_inc T_inc c p = operator_pre_inc T_inc c p"
    "operator_post_dec T_dec c p = operator_pre_dec T_dec c p"
    "postfix_lambda T_inc w = (w, T_inc w)"
    by (simp_all add: operator_post_inc_def operator_pre_inc_def operator_post_dec_def
        operator_pre_dec_def postfix_lambda_def)
  have "Get c (operator_post_inc T_inc c p) = (T_inc (m_Value p), operator_post_inc T_inc c p)"
    if "\<not> has_custom_getter c p" and "\<not> has_custom_setter c p"
  proof -
    from that have g: "GetterType c = NoGetter \<or> m_Getter p = None" 
      and s: "SetterType c = NoSetter \<or> m_Setter p = None"
      by (auto simp: has_custom_getter_def has_custom_setter_def)
    have r: "GetST c p = (m_Value p, p)"
      using g by (auto intro: GetST_raw)
    have w: "SetST c (T_inc (m_Value p)) p = p\<lparr>m_Value := T_inc (m_Value p)\<rparr>"
      using s by (auto intro: SetST_raw)
    have "operator_post_inc T_inc c p = p\<lparr>m_Value := T_inc (m_Value p)\<rparr>"
      by (simp add: operator_post_inc_def postfix_lambda_def ApplyOperation_def r w)
    moreover have "GetST c (p\<lparr>m_Value := T_inc (m_Value p)\<rparr>)
        = (T_inc (m_Value p), p\<lparr>m_Value := T_inc (m_Value p)\<rparr>)"
      using g by (auto simp: GetST_raw)
    ultimately show ?thesis by simp
  qed
  with same show ?thesis by blast
qed

text \<open>An instance: \<^verbatim>\<open>PropertyRW<int> p(5)\<close>; what \<^verbatim>\<open>p++\<close> returns reads as 6.\<close>

theorem C10_postfix_is_prefix_witness:
  "\<not> has_custom_getter PropertyRW (Property_value (5 :: cpp_int)) \<and>
   \<not> has_custom_setter PropertyRW (Property_value (5 :: cpp_int)) \<and>
   operator_post_inc (\<lambda>v. v + 1) PropertyRW (Property_value (5 :: cpp_int))
     = operator_pre_inc (\<lambda>v. v + 1) PropertyRW (Property_value 5) \<and>
   fst (Get PropertyRW (operator_post_inc (\<lambda>v. v + 1) PropertyRW (Property_value (5 :: cpp_int))))
     = 6"
proof -
  have h1: "\<not> has_custom_getter PropertyRW (Property_value (5 :: cpp_int))"
    by (simp add: has_custom_getter_def PropertyRW_def)
  have h2: "\<not> has_custom_setter PropertyRW (Property_value (5 :: cpp_int))"
    by (simp add: has_custom_setter_def PropertyRW_def)
  have v: "m_Value (Property_value (5 :: cpp_int)) = 5"
    by (simp add: Property_value_def)
  from C10_postfix_is_prefix [of "\<lambda>v. v + 1" PropertyRW "Property_value (5 :: cpp_int)"] h1 h2
  have same: "operator_post_inc (\<lambda>v. v + 1) PropertyRW (Property_value (5 :: cpp_int))
          = operator_pre_inc (\<lambda>v. v + 1) PropertyRW (Property_value 5)"
    and rd: "Get PropertyRW (operator_post_inc (\<lambda>v. v + 1) PropertyRW (Property_value (5 :: cpp_int)))
          = (m_Value (Property_value (5 :: cpp_int)) + 1,
             operator_post_inc (\<lambda>v. v + 1) PropertyRW (Property_value 5))"
    by blast+
  have "fst (Get PropertyRW
          (operator_post_inc (\<lambda>v. v + 1) PropertyRW (Property_value (5 :: cpp_int)))) = 6"
    unfolding rd by (simp add: v)
  with h1 h2 same show ?thesis
    by blast
qed

end
